theory Spec2Isabelle
  imports
    Main
    "HOL-Library.Product_Lexorder"
    "HOL-Library.Option_ord"
    "HOL-Library.List_Lexorder"
    "HOL-Library.Char_ord"
    "HOL-Library.Multiset"
begin

section \<open>Python values shared by the modules\<close>

text \<open>
  Free text (captions, failure reasons, replies of the text service) is a Python \<open>str\<close>:
  a sequence of Unicode code points, here \<open>nat list\<close>, so that \<open>len\<close> is \<open>length\<close>.
  Fixed ASCII identifiers (dictionary keys, status names, column values) are \<open>string\<close>.
\<close>

type_synonym ustr = "nat list"

datatype py_error = ValueError | TypeError | AttributeError

section \<open>tiktok_poster.py: the publish status poll loop\<close>

definition STATUS_PROCESSING_UPLOAD :: string where
  "STATUS_PROCESSING_UPLOAD = ''PROCESSING_UPLOAD''"

definition STATUS_PROCESSING_DOWNLOAD :: string where
  "STATUS_PROCESSING_DOWNLOAD = ''PROCESSING_DOWNLOAD''"

definition STATUS_SEND_TO_USER_INBOX :: string where
  "STATUS_SEND_TO_USER_INBOX = ''SEND_TO_USER_INBOX''"

definition STATUS_PUBLISH_COMPLETE :: string where
  "STATUS_PUBLISH_COMPLETE = ''PUBLISH_COMPLETE''"

definition STATUS_FAILED :: string where
  "STATUS_FAILED = ''FAILED''"

text \<open>
  What one call of \<open>check_publish_status\<close> returns: \<open>None\<close> (no headers, a request
  error, a status code other than 200), or the dictionary with \<open>status\<close> (the platform's
  string, or \<open>None\<close> when the reply has none) and \<open>fail_reason\<close>.
\<close>

datatype poll_reply = NoResult | StatusReply "string option" ustr

text \<open>The dictionary \<open>wait_for_publish\<close> returns.\<close>

record wait_result =
  success :: bool
  status :: "string option"
  fail_reason :: ustr

text \<open>The literal of the timeout branch, as code points.\<close>

definition TIMEOUT_REASON :: ustr where
  "TIMEOUT_REASON =
     [0x51E6, 0x7406, 0x304C, 0x30BF, 0x30A4, 0x30E0, 0x30A2, 0x30A6, 0x30C8,
      0x3057, 0x307E, 0x3057, 0x305F]"

text \<open>
  The \<open>while\<close> loop of \<open>wait_for_publish\<close> over an explicit clock. The status source
  \<open>src k\<close> gives, for the poll number \<open>k\<close> (from 0), the time the call takes and what it
  returns; \<open>time.sleep(interval)\<close> advances the clock by \<open>interval\<close> and raises
  \<open>ValueError\<close> on a negative length. The loop returns what the function returns (or
  the exception it raises), the clock reading at that moment and the number of polls made.
  A run that never leaves the loop has the value \<open>None\<close>.
\<close>

partial_function (option) wait_loop ::
  "(nat \<Rightarrow> nat \<times> poll_reply) \<Rightarrow> int \<Rightarrow> int \<Rightarrow> int \<Rightarrow> nat \<Rightarrow> int
     \<Rightarrow> ((py_error + wait_result) \<times> int \<times> nat) option" where
  "wait_loop src start_time timeout interval k now =
     (if now - start_time < timeout then
        (case src k of (d, status_result) \<Rightarrow>
          (let now' = now + int d in
           (case status_result of
              NoResult \<Rightarrow>
                (if interval < 0 then Some (Inl ValueError, now', Suc k)
                 else wait_loop src start_time timeout interval (Suc k) (now' + interval))
            | StatusReply st fr \<Rightarrow>
                (if st = Some STATUS_PUBLISH_COMPLETE then
                   Some (Inr \<lparr>success = True, status = st, fail_reason = []\<rparr>, now', Suc k)
                 else if st = Some STATUS_FAILED then
                   Some (Inr \<lparr>success = False, status = st, fail_reason = fr\<rparr>, now', Suc k)
                 else if interval < 0 then Some (Inl ValueError, now', Suc k)
                 else wait_loop src start_time timeout interval (Suc k) (now' + interval)))))
      else Some (Inr \<lparr>success = False, status = Some ''TIMEOUT'',
                      fail_reason = TIMEOUT_REASON\<rparr>, now, k))"

declare wait_loop.simps [code]

text \<open>\<open>wait_for_publish\<close>: \<open>start_time = time.time()\<close>, then the loop.\<close>

definition wait_for_publish ::
  "(nat \<Rightarrow> nat \<times> poll_reply) \<Rightarrow> int \<Rightarrow> int \<Rightarrow> int
     \<Rightarrow> ((py_error + wait_result) \<times> int \<times> nat) option" where
  "wait_for_publish src timeout interval clock = wait_loop src clock timeout interval 0 clock"

text \<open>The statuses at which the loop returns.\<close>

fun ends_wait :: "poll_reply \<Rightarrow> bool" where
  "ends_wait NoResult = False"
| "ends_wait (StatusReply st fr) = (st = Some STATUS_PUBLISH_COMPLETE \<or> st = Some STATUS_FAILED)"

text \<open>The clock reading at which poll number \<open>k\<close> starts when no earlier poll ended the wait.\<close>

fun poll_time :: "(nat \<Rightarrow> nat \<times> poll_reply) \<Rightarrow> int \<Rightarrow> int \<Rightarrow> nat \<Rightarrow> int" where
  "poll_time src interval clock 0 = clock"
| "poll_time src interval clock (Suc k) =
     poll_time src interval clock k + int (fst (src k)) + interval"

text \<open>Status sources used as concrete inputs.\<close>

definition source_complete_on_third :: "nat \<Rightarrow> nat \<times> poll_reply" where
  "source_complete_on_third k =
     (0, if k = 2 then StatusReply (Some STATUS_PUBLISH_COMPLETE) []
         else StatusReply (Some STATUS_PROCESSING_UPLOAD) [])"

definition source_inbox :: "nat \<Rightarrow> nat \<times> poll_reply" where
  "source_inbox k = (0, StatusReply (Some STATUS_SEND_TO_USER_INBOX) [])"

definition source_no_result :: "nat \<Rightarrow> nat \<times> poll_reply" where
  "source_no_result k = (0, NoResult)"

definition source_failed_on_second :: "nat \<Rightarrow> nat \<times> poll_reply" where
  "source_failed_on_second k =
     (1, if k = 1 then StatusReply (Some STATUS_FAILED) [0x62, 0x61, 0x64]
         else StatusReply (Some STATUS_PROCESSING_DOWNLOAD) [])"

definition timeout_result :: wait_result where
  "timeout_result =
     \<lparr>success = False, status = Some ''TIMEOUT'', fail_reason = TIMEOUT_REASON\<rparr>"

section \<open>tiktok_poster.py: TikTokTokenManager\<close>

text \<open>
  The token dictionary is the JSON object of the tokens file. A value is \<open>None\<close>, a
  string, a number, or a string in ISO format: \<open>PIso t\<close> stands for the text
  \<open>datetime.isoformat()\<close> writes for the instant \<open>t\<close> (in seconds), which is what
  \<open>datetime.fromisoformat\<close> reads back; on any other string it raises \<open>ValueError\<close>.
\<close>

datatype pyval = PNone | PStr string | PInt int | PIso int

type_synonym pydict = "(string \<times> pyval) list"

fun truthy :: "pyval \<Rightarrow> bool" where
  "truthy PNone = False"
| "truthy (PStr s) = (s \<noteq> [])"
| "truthy (PInt n) = (n \<noteq> 0)"
| "truthy (PIso t) = True"

definition dict_get :: "pydict \<Rightarrow> string \<Rightarrow> pyval" where
  "dict_get d k = (case map_of d k of None \<Rightarrow> PNone | Some v \<Rightarrow> v)"

definition dict_get_default :: "pydict \<Rightarrow> string \<Rightarrow> pyval \<Rightarrow> pyval" where
  "dict_get_default d k dflt = (case map_of d k of None \<Rightarrow> dflt | Some v \<Rightarrow> v)"

definition dict_has :: "pydict \<Rightarrow> string \<Rightarrow> bool" where
  "dict_has d k = (map_of d k \<noteq> None)"

fun fromisoformat :: "pyval \<Rightarrow> py_error + int" where
  "fromisoformat (PIso t) = Inr t"
| "fromisoformat (PStr s) = Inl ValueError"
| "fromisoformat v = Inl TypeError"

text \<open>The tokens file: absent, present but not loadable as JSON, or holding a dictionary.\<close>

datatype token_file = NoFile | Unreadable | Stored pydict

text \<open>
  The manager with the file it owns. \<open>cached\<close> is \<open>self._tokens\<close>. The two counters are
  not in the source: \<open>refresh_calls\<close> counts the calls of \<open>refresh_access_token\<close>,
  \<open>token_requests\<close> the requests posted to the token endpoint.
\<close>

record token_manager =
  tokens_file :: token_file
  cached :: "pydict option"
  refresh_calls :: nat
  token_requests :: nat

text \<open>What the token endpoint answers: anything that raises inside the \<open>try\<close> (transport
  error, error status, a body that is not JSON), or the JSON object.\<close>

datatype token_reply = RequestFailed | Json pydict

text \<open>
  What the manager's calls read from outside: the override token of the configuration, the
  clock, the token endpoint (its answer to the request number \<open>n\<close>), and whether writing
  the tokens file succeeds. A failing write is taken to raise before the file is changed.
\<close>

record token_env =
  TIKTOK_ACCESS_TOKEN :: string
  time_now :: int
  token_endpoint :: "nat \<Rightarrow> token_reply"
  write_ok :: bool

definition load_tokens :: "token_manager \<Rightarrow> pydict option \<times> token_manager" where
  "load_tokens m =
     (case tokens_file m of
        Stored d \<Rightarrow> (Some d, m\<lparr>cached := Some d\<rparr>)
      | _ \<Rightarrow> (None, m))"

definition save_tokens :: "token_env \<Rightarrow> token_manager \<Rightarrow> pydict \<Rightarrow> bool \<times> token_manager" where
  "save_tokens env m tokens =
     (if write_ok env then (True, m\<lparr>tokens_file := Stored tokens, cached := Some tokens\<rparr>)
      else (False, m))"

text \<open>\<open>if not tokens\<close>: \<open>None\<close> and the empty dictionary are both false.\<close>

fun no_tokens :: "pydict option \<Rightarrow> bool" where
  "no_tokens None = True"
| "no_tokens (Some d) = (d = [])"

definition refresh_access_token :: "token_env \<Rightarrow> token_manager \<Rightarrow> bool \<times> token_manager" where
  "refresh_access_token env m0 =
     (let m = m0\<lparr>refresh_calls := Suc (refresh_calls m0)\<rparr>;
          (tokens, m1) = (if no_tokens (cached m) then load_tokens m else (cached m, m))
      in case tokens of
           None \<Rightarrow> (False, m1)
         | Some tk \<Rightarrow>
             if tk = [] \<or> \<not> truthy (dict_get tk ''refresh_token'') then (False, m1)
             else
               (let m2 = m1\<lparr>token_requests := Suc (token_requests m1)\<rparr>
                in case token_endpoint env (token_requests m1) of
                     RequestFailed \<Rightarrow> (False, m2)
                   | Json result \<Rightarrow>
                       if dict_has result ''access_token'' then
                         (case dict_get_default result ''expires_in'' (PInt 86400) of
                            PInt secs \<Rightarrow>
                              (let new_tokens =
                                     [(''access_token'', dict_get result ''access_token''),
                                      (''refresh_token'',
                                         dict_get_default result ''refresh_token''
                                           (dict_get tk ''refresh_token'')),
                                      (''expires_at'', PIso (time_now env + secs)),
                                      (''open_id'',
                                         dict_get_default result ''open_id''
                                           (dict_get tk ''open_id''))];
                                   (saved, m3) = save_tokens env m2 new_tokens
                               in (True, m3))
                          | _ \<Rightarrow> (False, m2))
                       else (False, m2)))"

definition get_access_token ::
  "token_env \<Rightarrow> token_manager \<Rightarrow> (py_error + pyval) \<times> token_manager" where
  "get_access_token env m =
     (if TIKTOK_ACCESS_TOKEN env \<noteq> [] then (Inr (PStr (TIKTOK_ACCESS_TOKEN env)), m)
      else
        (let (tokens, m1) = load_tokens m
         in case tokens of
              None \<Rightarrow> (Inr PNone, m1)
            | Some tk \<Rightarrow>
                if tk = [] then (Inr PNone, m1)
                else
                  (let expires_at = dict_get tk ''expires_at''
                   in if truthy expires_at then
                        (case fromisoformat expires_at of
                           Inl e \<Rightarrow> (Inl e, m1)
                         | Inr expires_time \<Rightarrow>
                             if time_now env > expires_time then
                               (let (refreshed, m2) = refresh_access_token env m1
                                in if refreshed then
                                     (case cached m2 of
                                        None \<Rightarrow> (Inl AttributeError, m2)
                                      | Some c \<Rightarrow> (Inr (dict_get c ''access_token''), m2))
                                   else (Inr PNone, m2))
                             else (Inr (dict_get tk ''access_token''), m1))
                      else (Inr (dict_get tk ''access_token''), m1))))"

text \<open>The record is expired: \<open>expires_at\<close> is an ISO time and the clock is past it.\<close>

definition expired :: "token_env \<Rightarrow> pydict \<Rightarrow> bool" where
  "expired env tk = (case dict_get tk ''expires_at'' of PIso t \<Rightarrow> t < time_now env | _ \<Rightarrow> False)"


text \<open>Concrete inputs: an expired record, a reply of the token endpoint, a fresh manager.\<close>

definition expired_record :: pydict where
  "expired_record =
     [(''access_token'', PStr ''old''), (''refresh_token'', PStr ''r1''),
      (''expires_at'', PIso 100), (''open_id'', PStr ''u'')]"


definition new_token_reply :: "nat \<Rightarrow> token_reply" where
  "new_token_reply n = Json [(''access_token'', PStr ''new''), (''expires_in'', PInt 3600)]"

definition manager_on :: "pydict \<Rightarrow> token_manager" where
  "manager_on d = \<lparr>tokens_file = Stored d, cached = None, refresh_calls = 0, token_requests = 0\<rparr>"

definition env_at :: "int \<Rightarrow> bool \<Rightarrow> token_env" where
  "env_at t w =
     \<lparr>TIKTOK_ACCESS_TOKEN = [], time_now = t, token_endpoint = new_token_reply, write_ok = w\<rparr>"

section \<open>db_manager.py: the products and posts tables\<close>

text \<open>
  A row of \<open>products\<close>. The bookkeeping columns \<open>id\<close>, \<open>created_at\<close> and
  \<open>updated_at\<close> are left out: nothing below reads them. \<open>post_count\<close> is
  \<open>INTEGER DEFAULT 0\<close> and every writer of the repository stores an integer, so it is an
  \<open>int\<close>; \<open>last_posted_at\<close> is the ISO text the orchestrator stores, or \<open>NULL\<close>.
\<close>

record product =
  item_id :: string
  item_name :: ustr
  price :: "int option"
  image_url :: "string option"
  category :: "ustr option"
  description :: "ustr option"
  affiliate_url :: "string option"
  last_posted_at :: "string option"
  post_count :: int
  is_active :: bool


text \<open>A row of \<open>posts\<close> (without \<open>id\<close> and \<open>posted_at\<close>).\<close>

record post_log =
  log_item_id :: string
  post_text :: "ustr option"
  hosted_image_url :: "string option"
  tiktok_publish_id :: "string option"
  post_status :: string

text \<open>The dictionary \<open>add_post_log\<close> takes; \<open>status\<close> is optional.\<close>

record post_log_data =
  l_item_id :: string
  l_post_text :: "ustr option"
  l_hosted_image_url :: "string option"
  l_tiktok_publish_id :: "string option"
  l_status :: "string option"

text \<open>The database: both tables in row order. Each call commits; no call fails.\<close>

record database =
  products :: "product list"
  posts :: "post_log list"


definition get_product :: "database \<Rightarrow> string \<Rightarrow> product option" where
  "get_product db iid = find (\<lambda>p. item_id p = iid) (products db)"

text \<open>
  The \<open>ORDER BY\<close> of \<open>get_products_for_posting\<close>: the three sort terms as one key,
  compared term by term. \<open>NULL\<close> sorts before every text (\<open>None\<close> is the least
  option), texts compare character by character. Rows with equal keys keep the table order.
\<close>

definition rotation_key :: "product \<Rightarrow> nat \<times> int \<times> string option" where
  "rotation_key p =
     ((if last_posted_at p = None then 0 else 1), post_count p, last_posted_at p)"

definition get_products_for_posting :: "database \<Rightarrow> product list" where
  "get_products_for_posting db = sort_key rotation_key (filter is_active (products db))"

text \<open>One entry of the dictionary \<open>update_product\<close> takes: a column and its new value.\<close>

datatype field_update =
    Set_item_name ustr
  | Set_price "int option"
  | Set_image_url "string option"
  | Set_category "ustr option"
  | Set_description "ustr option"
  | Set_affiliate_url "string option"
  | Set_last_posted_at "string option"
  | Set_post_count int
  | Set_is_active bool
  | Set_other string

fun allowed_field :: "field_update \<Rightarrow> bool" where
  "allowed_field (Set_other k) = False"
| "allowed_field u = True"

fun apply_update :: "field_update \<Rightarrow> product \<Rightarrow> product" where
  "apply_update (Set_item_name v) p = p\<lparr>item_name := v\<rparr>"
| "apply_update (Set_price v) p = p\<lparr>price := v\<rparr>"
| "apply_update (Set_image_url v) p = p\<lparr>image_url := v\<rparr>"
| "apply_update (Set_category v) p = p\<lparr>category := v\<rparr>"
| "apply_update (Set_description v) p = p\<lparr>description := v\<rparr>"
| "apply_update (Set_affiliate_url v) p = p\<lparr>affiliate_url := v\<rparr>"
| "apply_update (Set_last_posted_at v) p = p\<lparr>last_posted_at := v\<rparr>"
| "apply_update (Set_post_count v) p = p\<lparr>post_count := v\<rparr>"
| "apply_update (Set_is_active v) p = p\<lparr>is_active := v\<rparr>"
| "apply_update (Set_other k) p = p"

definition update_product :: "database \<Rightarrow> string \<Rightarrow> field_update list \<Rightarrow> bool \<times> database" where
  "update_product db iid data =
     (let updates = filter allowed_field data
      in if updates = [] then (False, db)
         else (\<exists>p \<in> set (products db). item_id p = iid,
               db\<lparr>products :=
                    map (\<lambda>p. if item_id p = iid then fold apply_update updates p else p)
                        (products db)\<rparr>))"

definition deactivate_product :: "database \<Rightarrow> string \<Rightarrow> bool \<times> database" where
  "deactivate_product db iid = update_product db iid [Set_is_active False]"

definition add_post_log :: "database \<Rightarrow> post_log_data \<Rightarrow> database" where
  "add_post_log db post_data =
     db\<lparr>posts := posts db @
          [\<lparr>log_item_id = l_item_id post_data,
            post_text = l_post_text post_data,
            hosted_image_url = l_hosted_image_url post_data,
            tiktok_publish_id = l_tiktok_publish_id post_data,
            post_status = (case l_status post_data of None \<Rightarrow> ''pending'' | Some s \<Rightarrow> s)\<rparr>]\<rparr>"

section \<open>product_manager.py: the next product\<close>

definition get_next_product_for_posting :: "database \<Rightarrow> product option" where
  "get_next_product_for_posting db =
     (case get_products_for_posting db of [] \<Rightarrow> None | p # ps \<Rightarrow> Some p)"

text \<open>
  The rotation order in the words of the specification: a product that was never posted
  comes before one that was; then the smaller \<open>post_count\<close>; then the older
  \<open>last_posted_at\<close>.
\<close>

definition rotation_before :: "product \<Rightarrow> product \<Rightarrow> bool" where
  "rotation_before p q =
     (case (last_posted_at p, last_posted_at q) of
        (None, None) \<Rightarrow> post_count p \<le> post_count q
      | (None, Some t) \<Rightarrow> True
      | (Some s, None) \<Rightarrow> False
      | (Some s, Some t) \<Rightarrow>
          post_count p < post_count q \<or> (post_count p = post_count q \<and> s \<le> t))"

section \<open>ai_writer.py: parsing, validation and the generation retry loop\<close>

text \<open>The dictionary \<open>parse_response\<close> builds.\<close>

record post_data =
  body :: ustr
  hashtags :: "ustr list"
  full_text :: ustr

text \<open>
  The calls into Python's \<open>re\<close> and \<open>str\<close> that the module makes, as parameters:
  group 1 of the search for the labelled body, group 1 of the fallback search for text
  starting with PR, \<open>re.findall\<close> and \<open>re.sub\<close> with the hashtag pattern, \<open>str.strip\<close>.
\<close>

record re_lib =
  search_body :: "ustr \<Rightarrow> ustr option"
  search_pr :: "ustr \<Rightarrow> ustr option"
  findall_hashtags :: "ustr \<Rightarrow> ustr list"
  sub_hashtags :: "ustr \<Rightarrow> ustr"
  strip :: "ustr \<Rightarrow> ustr"

text \<open>\<open>" ".join\<close>; 32 is the space, 10 the newline, 80 and 82 are P and R.\<close>

fun join_space :: "ustr list \<Rightarrow> ustr" where
  "join_space [] = []"
| "join_space [x] = x"
| "join_space (x # y # ys) = x @ [32] @ join_space (y # ys)"

definition parse_response :: "re_lib \<Rightarrow> ustr \<Rightarrow> post_data" where
  "parse_response re response_text =
     (let b = (case search_body re response_text of
                 Some g \<Rightarrow> strip re g
               | None \<Rightarrow>
                   (case search_pr re response_text of
                      Some g \<Rightarrow> strip re g
                    | None \<Rightarrow> []));
          tags = take 7 (findall_hashtags re response_text)
      in \<lparr>body = b, hashtags = tags,
          full_text = (if b \<noteq> [] then b @ [10, 10] @ join_space tags else [])\<rparr>)"

datatype validation_error =
    BodyTooLong nat
  | MissingPR
  | TooFewHashtags nat
  | TooManyHashtags nat

record validation =
  valid :: bool
  errors :: "validation_error list"

definition validate_post_text :: "re_lib \<Rightarrow> ustr \<Rightarrow> validation" where
  "validate_post_text re text =
     (let b = strip re (sub_hashtags re text);
          tags = findall_hashtags re text;
          errs =
            (if length b > 300 then [BodyTooLong (length b)] else []) @
            (if take 2 text \<noteq> [80, 82] then [MissingPR] else []) @
            (if length tags < 5 then [TooFewHashtags (length tags)]
             else if length tags > 7 then [TooManyHashtags (length tags)]
             else [])
      in \<lparr>valid = (errs = []), errors = errs\<rparr>)"

text \<open>
  One call of the text service: it raises \<open>anthropic.APIError\<close> or returns the text of the
  reply. What each attempt writes to the log is kept, one entry per attempt, so that the
  attempts that were validated can be told from those that were not.
\<close>

datatype service_reply = APIError | ResponseText ustr

datatype gen_log =
    LogNoApiKey
  | LogApiError
  | LogNoBody
  | LogValidationErrors "validation_error list"
  | LogSuccess
  | LogGenerationFailed

text \<open>
  The \<open>for\<close> loop over \<open>range(max_retries + 1)\<close>: \<open>attempt\<close> is the loop variable (the
  number of calls made so far), the last argument the number of attempts left. The result is
  what the function returns, the number of calls of the service, and the log.
\<close>

fun generate_loop ::
  "re_lib \<Rightarrow> (nat \<Rightarrow> service_reply) \<Rightarrow> nat \<Rightarrow> nat \<Rightarrow> post_data option \<times> nat \<times> gen_log list" where
  "generate_loop re service attempt 0 = (None, attempt, [LogGenerationFailed])"
| "generate_loop re service attempt (Suc left) =
     (case service attempt of
        APIError \<Rightarrow>
          (case generate_loop re service (Suc attempt) left of
             (r, calls, log) \<Rightarrow> (r, calls, LogApiError # log))
      | ResponseText response_text \<Rightarrow>
          (let result = parse_response re response_text
           in if body result = [] then
                (case generate_loop re service (Suc attempt) left of
                   (r, calls, log) \<Rightarrow> (r, calls, LogNoBody # log))
              else
                (let v = validate_post_text re (full_text result)
                 in if valid v then (Some result, Suc attempt, [LogSuccess])
                    else
                      (case generate_loop re service (Suc attempt) left of
                         (r, calls, log) \<Rightarrow> (r, calls, LogValidationErrors (errors v) # log)))))"

text \<open>
  \<open>generate_post_text\<close>. The prompt is built from the product and the style and is the same
  in every attempt; the service is given as its replies, call by call.
\<close>

definition generate_post_text ::
  "re_lib \<Rightarrow> string \<Rightarrow> (nat \<Rightarrow> service_reply) \<Rightarrow> int
     \<Rightarrow> post_data option \<times> nat \<times> gen_log list" where
  "generate_post_text re ANTHROPIC_API_KEY service max_retries =
     (if ANTHROPIC_API_KEY = [] then (None, 0, [LogNoApiKey])
      else generate_loop re service 0 (nat (max_retries + 1)))"

text \<open>
  The specification's words for one attempt: it is accepted when the parse yields a
  non-empty body and the assembled \<open>full_text\<close> passes validation.
\<close>

definition attempt_accepted :: "re_lib \<Rightarrow> service_reply \<Rightarrow> bool" where
  "attempt_accepted re reply =
     (case reply of
        APIError \<Rightarrow> False
      | ResponseText t \<Rightarrow>
          body (parse_response re t) \<noteq> [] \<and>
          valid (validate_post_text re (full_text (parse_response re t))))"

text \<open>What a rejected or accepted attempt leaves in the log.\<close>

definition attempt_log :: "re_lib \<Rightarrow> service_reply \<Rightarrow> gen_log" where
  "attempt_log re reply =
     (case reply of
        APIError \<Rightarrow> LogApiError
      | ResponseText t \<Rightarrow>
          if body (parse_response re t) = [] then LogNoBody
          else if valid (validate_post_text re (full_text (parse_response re t)))
               then LogSuccess
               else LogValidationErrors
                      (errors (validate_post_text re (full_text (parse_response re t)))))"

text \<open>A small stand-in for the library calls and a service, as concrete inputs.\<close>

definition demo_re :: re_lib where
  "demo_re =
     \<lparr>search_body = (\<lambda>t. if t = [] then None else Some t),
      search_pr = (\<lambda>t. None),
      findall_hashtags = (\<lambda>t. [[35, 97], [35, 98], [35, 99], [35, 100], [35, 101]]),
      sub_hashtags = (\<lambda>t. t),
      strip = (\<lambda>t. t)\<rparr>"

definition demo_service :: "nat \<Rightarrow> service_reply" where
  "demo_service k =
     (if k = 0 then APIError
      else if k = 1 then ResponseText []
      else if k = 2 then ResponseText [88]
      else ResponseText [80, 82, 33])"

section \<open>main.py: one orchestration run\<close>

text \<open>The dictionary \<open>post_product\<close> returns when the publish was initialised.\<close>

record post_result =
  publish_id :: string
  r_success :: bool
  r_status :: "string option"
  r_fail_reason :: ustr

text \<open>
  What one run reads from its collaborators: what \<open>get_hosted_url\<close> returned, what
  \<open>generate_post_text\<close> returned, the \<open>publish_id\<close> \<open>init_photo_post\<close> returned
  (\<open>None\<close> when it failed), the status source and the clock of the wait, and the text of
  \<open>datetime.now().isoformat()\<close>.
\<close>

record run_env =
  hosted :: "string option"
  generated :: "post_data option"
  init_result :: "string option"
  status_source :: "nat \<Rightarrow> nat \<times> poll_reply"
  start_clock :: int
  now_iso :: string

text \<open>
  \<open>post_product\<close>: \<open>None\<close> when the initialisation failed, else the wait with its default
  \<open>timeout = 120\<close> and \<open>interval = 5\<close>. The outer option is the run that never returns.
\<close>

definition post_product :: "run_env \<Rightarrow> (py_error + post_result option) option" where
  "post_product env =
     (case init_result env of
        None \<Rightarrow> Some (Inr None)
      | Some pid \<Rightarrow>
          (case wait_for_publish (status_source env) 120 5 (start_clock env) of
             None \<Rightarrow> None
           | Some (Inl e, t, n) \<Rightarrow> Some (Inl e)
           | Some (Inr result, t, n) \<Rightarrow>
               Some (Inr (Some \<lparr>publish_id = pid, r_success = success result,
                                 r_status = status result,
                                 r_fail_reason = fail_reason result\<rparr>))))"

text \<open>\<open>if not x\<close> on an optional string: \<open>None\<close> and the empty string are false.\<close>

fun falsy :: "string option \<Rightarrow> bool" where
  "falsy None = True"
| "falsy (Some s) = (s = [])"

definition select_product :: "database \<Rightarrow> string option \<Rightarrow> product option" where
  "select_product db product_id =
     (case product_id of
        Some pid \<Rightarrow> if pid \<noteq> [] then get_product db pid else get_next_product_for_posting db
      | None \<Rightarrow> get_next_product_for_posting db)"

text \<open>
  \<open>run_single_post\<close>: the returned boolean and the database after the run. An exception
  raised inside the \<open>try\<close> is caught and gives \<open>False\<close>.
\<close>

definition run_single_post ::
  "run_env \<Rightarrow> bool \<Rightarrow> string option \<Rightarrow> database \<Rightarrow> (bool \<times> database) option" where
  "run_single_post env dry_run product_id db =
     (case select_product db product_id of
        None \<Rightarrow> Some (False, db)
      | Some product \<Rightarrow>
          if falsy (image_url product) then Some (False, db)
          else if falsy (hosted env) then Some (False, db)
          else
            (case generated env of
               None \<Rightarrow> Some (False, db)
             | Some pd \<Rightarrow>
                 if dry_run then Some (True, db)
                 else
                   (case post_product env of
                      None \<Rightarrow> None
                    | Some (Inl e) \<Rightarrow> Some (False, db)
                    | Some (Inr None) \<Rightarrow> Some (False, db)
                    | Some (Inr (Some result)) \<Rightarrow>
                        if r_success result then
                          (let db1 = add_post_log db
                                 \<lparr>l_item_id = item_id product,
                                  l_post_text = Some (full_text pd),
                                  l_hosted_image_url = hosted env,
                                  l_tiktok_publish_id = Some (publish_id result),
                                  l_status = Some ''published''\<rparr>;
                               (updated, db2) = update_product db1 (item_id product)
                                 [Set_last_posted_at (Some (now_iso env)),
                                  Set_post_count (post_count product + 1)]
                           in Some (True, db2))
                        else
                          Some (False, add_post_log db
                                 \<lparr>l_item_id = item_id product,
                                  l_post_text = Some (full_text pd),
                                  l_hosted_image_url = hosted env,
                                  l_tiktok_publish_id = Some (publish_id result),
                                  l_status = Some ''failed''\<rparr>))))"



text \<open>Concrete inputs for the runs: a product, a generated post, a database.\<close>

definition demo_product :: "string \<Rightarrow> string option \<Rightarrow> int \<Rightarrow> product" where
  "demo_product iid posted n =
     \<lparr>item_id = iid, item_name = [112], price = Some 2980,
      image_url = Some ''https://x/img.jpg'', category = None, description = None,
      affiliate_url = None, last_posted_at = posted, post_count = n, is_active = True\<rparr>"

definition demo_post :: post_data where
  "demo_post = \<lparr>body = [80, 82], hashtags = [], full_text = [80, 82, 10, 10]\<rparr>"

definition demo_db :: database where
  "demo_db = \<lparr>products = [demo_product ''p1'' (Some ''2024-05-01T10:00:00'') 3], posts = []\<rparr>"

definition product_A :: product where
  "product_A = demo_product ''A'' None 0"

definition product_B :: product where
  "product_B = demo_product ''B'' (Some ''2024-05-02T10:00:00'') 2"

definition product_C :: product where
  "product_C = demo_product ''C'' (Some ''2024-05-03T10:00:00'') 0"


definition demo_env :: "string option \<Rightarrow> (nat \<Rightarrow> nat \<times> poll_reply) \<Rightarrow> run_env" where
  "demo_env init src =
     \<lparr>hosted = Some ''https://host/img.jpg'', generated = Some demo_post,
      init_result = init, status_source = src, start_clock = 0,
      now_iso = ''2024-06-01T09:00:00''\<rparr>"

section \<open>Theorems: the poll loop\<close>

lemma wait_loop_result_inv:
  "wait_loop src start_time timeout interval k now = Some y \<Longrightarrow>
     (\<forall>r. fst y = Inr r \<longrightarrow>
        (success r \<longleftrightarrow> status r = Some STATUS_PUBLISH_COMPLETE) \<and>
        (success r \<longrightarrow> fail_reason r = []))"
proof (induction rule: wait_loop.raw_induct[rotated 1, consumes 1])
  case (1 wl src start_time timeout interval k now y)
  obtain a t n where y: "y = (a, t, n)" by (cases y)
  from 1 show ?case unfolding y
    by (auto simp: STATUS_PUBLISH_COMPLETE_def STATUS_FAILED_def Let_def
             split: if_splits prod.splits poll_reply.splits)
qed

lemma wait_loop_skip:
  assumes "0 \<le> interval" "\<not> ends_wait (snd (src k))" "now - start_time < timeout"
  shows "wait_loop src start_time timeout interval k now =
         wait_loop src start_time timeout interval (Suc k) (now + int (fst (src k)) + interval)"
proof (cases "src k")
  case (Pair d reply)
  with assms show ?thesis
    by (subst wait_loop.simps) (cases reply; simp)
qed

lemma poll_time_mono:
  "0 \<le> interval \<Longrightarrow> i \<le> j \<Longrightarrow>
     poll_time src interval clock i \<le> poll_time src interval clock j"
proof (induction j)
  case 0
  then show ?case by simp
next
  case (Suc j)
  then show ?case by (cases "i = Suc j") (auto simp: le_Suc_eq)
qed

lemma wait_loop_prefix:
  assumes "0 \<le> interval"
    and "\<forall>i<m. \<not> ends_wait (snd (src i))"
    and "\<forall>i<m. poll_time src interval clock i - clock < timeout"
  shows "wait_loop src clock timeout interval 0 clock =
         wait_loop src clock timeout interval m (poll_time src interval clock m)"
  using assms(2,3)
proof (induction m)
  case 0
  show ?case by simp
next
  case (Suc m)
  then have "wait_loop src clock timeout interval 0 clock =
             wait_loop src clock timeout interval m (poll_time src interval clock m)"
    by simp
  also have "\<dots> = wait_loop src clock timeout interval (Suc m)
                     (poll_time src interval clock (Suc m))"
    using wait_loop_skip[of interval src m "poll_time src interval clock m" clock timeout]
      assms(1) Suc.prems
    by simp
  finally show ?case .
qed

lemma wait_loop_at_terminal:
  assumes "src k = (d, StatusReply st fr)"
    and "st = Some STATUS_PUBLISH_COMPLETE \<or> st = Some STATUS_FAILED"
    and "now - start_time < timeout"
  shows "wait_loop src start_time timeout interval k now =
           Some (Inr \<lparr>success = (st = Some STATUS_PUBLISH_COMPLETE), status = st,
                      fail_reason = (if st = Some STATUS_PUBLISH_COMPLETE then [] else fr)\<rparr>,
                 now + int d, Suc k)"
  using assms
  by (subst wait_loop.simps) (auto simp: STATUS_PUBLISH_COMPLETE_def STATUS_FAILED_def)

lemma wait_first_terminal:
  assumes "0 \<le> interval"
    and "\<forall>i<j. \<not> ends_wait (snd (src i))"
    and "src j = (d, StatusReply st fr)"
    and "st = Some STATUS_PUBLISH_COMPLETE \<or> st = Some STATUS_FAILED"
    and "poll_time src interval clock j - clock < timeout"
  shows "wait_for_publish src timeout interval clock =
           Some (Inr \<lparr>success = (st = Some STATUS_PUBLISH_COMPLETE), status = st,
                      fail_reason = (if st = Some STATUS_PUBLISH_COMPLETE then [] else fr)\<rparr>,
                 poll_time src interval clock j + int d, Suc j)"
proof -
  have "poll_time src interval clock i - clock < timeout" if "i < j" for i
    using poll_time_mono[OF assms(1), of i j src clock] assms(5) that by simp
  then have "wait_loop src clock timeout interval 0 clock =
             wait_loop src clock timeout interval j (poll_time src interval clock j)"
    using wait_loop_prefix[OF assms(1,2)] by blast
  then show ?thesis
    using wait_loop_at_terminal[of src j d st fr "poll_time src interval clock j" clock timeout
        interval] assms(3,4,5)
    by (simp add: wait_for_publish_def)
qed

lemma wait_loop_timeout:
  assumes "0 \<le> interval" and "\<forall>j. 0 < int (fst (src j)) + interval"
    and "\<forall>j. \<not> ends_wait (snd (src j))"
  shows "\<exists>n\<ge>k. wait_loop src clock timeout interval k (poll_time src interval clock k) =
              Some (Inr timeout_result, poll_time src interval clock n, n)
            \<and> timeout \<le> poll_time src interval clock n - clock
            \<and> (\<forall>j. k \<le> j \<and> j < n \<longrightarrow> poll_time src interval clock j - clock < timeout)"
proof (induction "nat (timeout + clock - poll_time src interval clock k)"
         arbitrary: k rule: less_induct)
  case less
  show ?case
  proof (cases "poll_time src interval clock k - clock < timeout")
    case False
    then have "wait_loop src clock timeout interval k (poll_time src interval clock k) =
               Some (Inr timeout_result, poll_time src interval clock k, k)"
      by (subst wait_loop.simps) (simp add: timeout_result_def)
    with False show ?thesis by (intro exI[of _ k]) auto
  next
    case True
    have step: "wait_loop src clock timeout interval k (poll_time src interval clock k) =
          wait_loop src clock timeout interval (Suc k) (poll_time src interval clock (Suc k))"
      using wait_loop_skip[of interval src k "poll_time src interval clock k" clock timeout]
        assms(1,3) True
      by simp
    have "0 < int (fst (src k)) + interval"
      using assms(2) by blast
    then have "nat (timeout + clock - poll_time src interval clock (Suc k))
          < nat (timeout + clock - poll_time src interval clock k)"
      using True by simp
    from less[OF this] obtain n where n: "Suc k \<le> n"
      "wait_loop src clock timeout interval (Suc k) (poll_time src interval clock (Suc k)) =
         Some (Inr timeout_result, poll_time src interval clock n, n)"
      "timeout \<le> poll_time src interval clock n - clock"
      "\<forall>j. Suc k \<le> j \<and> j < n \<longrightarrow> poll_time src interval clock j - clock < timeout"
      by blast
    have "\<forall>j. k \<le> j \<and> j < n \<longrightarrow> poll_time src interval clock j - clock < timeout"
      using n(4) True by (metis Suc_leI le_neq_implies_less)
    with n step show ?thesis by (intro exI[of _ n]) auto
  qed
qed


lemma wait_loop_timeout_result:
  "wait_loop src start_time timeout interval k now = Some y \<Longrightarrow>
     (\<forall>r t n. y = (Inr r, t, n) \<and> status r = Some ''TIMEOUT'' \<longrightarrow>
        r = timeout_result \<and> timeout \<le> t - start_time)"
proof (induction rule: wait_loop.raw_induct[rotated 1, consumes 1])
  case (1 wl src start_time timeout interval k now y)
  obtain a t n where y: "y = (a, t, n)" by (cases y)
  from 1 show ?case unfolding y
    by (auto simp: STATUS_PUBLISH_COMPLETE_def STATUS_FAILED_def Let_def timeout_result_def
             split: if_splits prod.splits poll_reply.splits)
qed

text \<open>
  C10. Every dictionary \<open>wait_for_publish\<close> returns has \<open>success\<close> true exactly when
  \<open>status\<close> is \<open>PUBLISH_COMPLETE\<close>, and then \<open>fail_reason\<close> is the empty string.
\<close>

theorem wait_for_publish_success_iff_complete:
  assumes "wait_for_publish src timeout interval clock = Some (Inr r, t, n)"
  shows "(success r \<longleftrightarrow> status r = Some STATUS_PUBLISH_COMPLETE) \<and>
         (success r \<longrightarrow> fail_reason r = [])"
  using wait_loop_result_inv[of src clock timeout interval 0 clock "(Inr r, t, n)"] assms
  by (simp add: wait_for_publish_def)

theorem wait_for_publish_success_iff_complete_witness:
  "wait_for_publish source_complete_on_third 120 1 0 =
     Some (Inr \<lparr>success = True, status = Some STATUS_PUBLISH_COMPLETE, fail_reason = []\<rparr>, 2, 3)
   \<and> wait_for_publish source_failed_on_second 120 5 0 =
     Some (Inr \<lparr>success = False, status = Some STATUS_FAILED,
                fail_reason = [0x62, 0x61, 0x64]\<rparr>, 7, 2)"
proof -
  have a: "wait_for_publish source_complete_on_third 120 1 0 =
     Some (Inr \<lparr>success = True, status = Some STATUS_PUBLISH_COMPLETE, fail_reason = []\<rparr>, 2, 3)"
    by (simp add: wait_for_publish_def wait_loop.simps source_complete_on_third_def
          STATUS_PUBLISH_COMPLETE_def STATUS_FAILED_def STATUS_PROCESSING_UPLOAD_def)
  have b: "wait_for_publish source_failed_on_second 120 5 0 =
     Some (Inr \<lparr>success = False, status = Some STATUS_FAILED,
                fail_reason = [0x62, 0x61, 0x64]\<rparr>, 7, 2)"
    by (simp add: wait_for_publish_def wait_loop.simps source_failed_on_second_def
          STATUS_PUBLISH_COMPLETE_def STATUS_FAILED_def STATUS_PROCESSING_DOWNLOAD_def)
  from wait_for_publish_success_iff_complete[OF a] wait_for_publish_success_iff_complete[OF b]
    a b
  show ?thesis by simp
qed

text \<open>
  C3, as the code has it. The wait returns at the first poll that reports
  \<open>PUBLISH_COMPLETE\<close> or \<open>FAILED\<close>, when that poll starts before the deadline: no later
  poll is made, and the result carries that status. \<open>SEND_TO_USER_INBOX\<close> is not one of
  the two: it is handled like the processing statuses, and polling goes on.
\<close>

theorem wait_returns_at_first_complete_or_failed:
  assumes "0 \<le> interval"
    and "\<forall>i<j. \<not> ends_wait (snd (src i))"
    and "src j = (d, StatusReply st fr)"
    and "st = Some STATUS_PUBLISH_COMPLETE \<or> st = Some STATUS_FAILED"
    and "poll_time src interval clock j - clock < timeout"
  shows "wait_for_publish src timeout interval clock =
           Some (Inr \<lparr>success = (st = Some STATUS_PUBLISH_COMPLETE), status = st,
                      fail_reason = (if st = Some STATUS_PUBLISH_COMPLETE then [] else fr)\<rparr>,
                 poll_time src interval clock j + int d, Suc j)
         \<and> \<not> ends_wait (StatusReply (Some STATUS_SEND_TO_USER_INBOX) fr')"
  using wait_first_terminal[OF assms]
  by (simp add: STATUS_SEND_TO_USER_INBOX_def STATUS_PUBLISH_COMPLETE_def STATUS_FAILED_def)

theorem wait_returns_at_first_complete_or_failed_witness:
  "(0::int) \<le> 5
   \<and> \<not> ends_wait (snd (source_failed_on_second 0))
   \<and> source_failed_on_second 1 = (1, StatusReply (Some STATUS_FAILED) [0x62, 0x61, 0x64])
   \<and> poll_time source_failed_on_second 5 0 1 - 0 < 120
   \<and> wait_for_publish source_failed_on_second 120 5 0 =
       Some (Inr \<lparr>success = False, status = Some STATUS_FAILED,
                  fail_reason = [0x62, 0x61, 0x64]\<rparr>, 7, 2)"
proof -
  have h1: "\<forall>i<1. \<not> ends_wait (snd (source_failed_on_second i))"
    by (simp add: source_failed_on_second_def STATUS_PROCESSING_DOWNLOAD_def
          STATUS_PUBLISH_COMPLETE_def STATUS_FAILED_def)
  have h2: "source_failed_on_second 1 = (1, StatusReply (Some STATUS_FAILED) [0x62, 0x61, 0x64])"
    by (simp add: source_failed_on_second_def)
  have h3: "poll_time source_failed_on_second 5 0 1 - 0 < 120"
    by (simp add: source_failed_on_second_def)
  have "poll_time source_failed_on_second 5 0 1 = 6"
    by (simp add: source_failed_on_second_def)
  with wait_returns_at_first_complete_or_failed[OF _ h1 h2 _ h3, of "[]"]
  have r: "wait_for_publish source_failed_on_second 120 5 0 =
       Some (Inr \<lparr>success = False, status = Some STATUS_FAILED,
                  fail_reason = [0x62, 0x61, 0x64]\<rparr>, 7, 2)"
    by (simp add: STATUS_PUBLISH_COMPLETE_def STATUS_FAILED_def)
  have h0: "\<not> ends_wait (snd (source_failed_on_second 0))"
    using h1 by simp
  have "(0::int) \<le> 5" by simp
  with h0 h2 h3 r show ?thesis by (intro conjI)
qed

text \<open>
  C3, as stated, fails: a source that reports \<open>SEND_TO_USER_INBOX\<close> at every poll is
  polled again after the first observation, and the wait runs until the deadline.
\<close>

theorem wait_send_to_user_inbox_counterexample:
  "snd (source_inbox 0) = StatusReply (Some STATUS_SEND_TO_USER_INBOX) []
   \<and> wait_for_publish source_inbox 10 5 0 = Some (Inr timeout_result, 10, 2)"
  by (simp add: wait_for_publish_def wait_loop.simps source_inbox_def timeout_result_def
        STATUS_PUBLISH_COMPLETE_def STATUS_FAILED_def STATUS_SEND_TO_USER_INBOX_def)

text \<open>
  C4, as the code has it. With a 1-unit interval and \<open>PUBLISH_COMPLETE\<close> on the third
  poll, the wait returns success at the third poll, after two sleeps: the elapsed time is
  2 units plus the time the three polls take, when the third poll starts before the
  deadline.
\<close>

theorem wait_complete_on_third_poll:
  assumes "\<not> ends_wait (snd (src 0))"
    and "\<not> ends_wait (snd (src 1))"
    and "src 2 = (d, StatusReply (Some STATUS_PUBLISH_COMPLETE) fr)"
    and "2 + int (fst (src 0)) + int (fst (src 1)) < timeout"
  shows "wait_for_publish src timeout 1 clock =
           Some (Inr \<lparr>success = True, status = Some STATUS_PUBLISH_COMPLETE, fail_reason = []\<rparr>,
                 clock + 2 + int (fst (src 0)) + int (fst (src 1)) + int d, 3)"
proof -
  have pt: "poll_time src 1 clock 2 = clock + 2 + int (fst (src 0)) + int (fst (src 1))"
    by (simp add: numeral_2_eq_2)
  have "\<forall>i<2. \<not> ends_wait (snd (src i))"
    using assms(1,2) by (auto simp: less_Suc_eq numeral_2_eq_2)
  from wait_first_terminal[of 1 2 src d "Some STATUS_PUBLISH_COMPLETE" fr clock timeout,
      OF _ this assms(3)] assms(4) pt
  show ?thesis by (simp add: numeral_3_eq_3 numeral_2_eq_2)
qed

theorem wait_complete_on_third_poll_witness:
  "\<not> ends_wait (snd (source_complete_on_third 0))
   \<and> \<not> ends_wait (snd (source_complete_on_third 1))
   \<and> source_complete_on_third 2 = (0, StatusReply (Some STATUS_PUBLISH_COMPLETE) [])
   \<and> 2 + int (fst (source_complete_on_third 0)) + int (fst (source_complete_on_third 1)) < 120
   \<and> wait_for_publish source_complete_on_third 120 1 0 =
       Some (Inr \<lparr>success = True, status = Some STATUS_PUBLISH_COMPLETE, fail_reason = []\<rparr>,
             2, 3)"
proof -
  have h1: "\<not> ends_wait (snd (source_complete_on_third 0))"
    and h2: "\<not> ends_wait (snd (source_complete_on_third 1))"
    by (simp_all add: source_complete_on_third_def STATUS_PROCESSING_UPLOAD_def
          STATUS_PUBLISH_COMPLETE_def STATUS_FAILED_def)
  have h3: "source_complete_on_third 2 = (0, StatusReply (Some STATUS_PUBLISH_COMPLETE) [])"
    by (simp add: source_complete_on_third_def)
  have h4: "2 + int (fst (source_complete_on_third 0)) + int (fst (source_complete_on_third 1))
            < 120"
    by (simp add: source_complete_on_third_def)
  have d0: "fst (source_complete_on_third k) = 0" for k
    by (simp add: source_complete_on_third_def)
  have r: "wait_for_publish source_complete_on_third 120 1 0 =
       Some (Inr \<lparr>success = True, status = Some STATUS_PUBLISH_COMPLETE, fail_reason = []\<rparr>,
             2, 3)"
    using wait_complete_on_third_poll[OF h1 h2 h3 h4, of 0] by (simp add: d0)
  from h1 h2 h3 h4 r show ?thesis by (intro conjI)
qed

text \<open>
  C4, as stated, fails: with polls that take no time the wait returns success after
  2 interval units, which is not at least 3.
\<close>

theorem wait_complete_on_third_poll_counterexample:
  "(case wait_for_publish source_complete_on_third 120 1 0 of
      Some (Inr r, t, n) \<Rightarrow> success r \<and> n = 3 \<and> t - 0 = 2 \<and> \<not> (3 \<le> t - 0 \<and> t - 0 < 4)
    | _ \<Rightarrow> False)"
  by (simp add: wait_for_publish_def wait_loop.simps source_complete_on_third_def
        STATUS_PUBLISH_COMPLETE_def STATUS_FAILED_def STATUS_PROCESSING_UPLOAD_def)

text \<open>
  C9, as the code has it. A \<open>TIMEOUT\<close> result is returned only at a clock reading with
  \<open>elapsed \<ge> timeout\<close>, for every source and interval. When no poll ever reports
  \<open>PUBLISH_COMPLETE\<close> or \<open>FAILED\<close> (failed status checks included) and the clock
  advances from one poll to the next (the interval is not negative, and a poll and its sleep
  together take time), the wait returns the \<open>TIMEOUT\<close> result at the first reading of
  the loop guard with \<open>elapsed \<ge> timeout\<close>: at the start of every poll made before, the
  clock read less.
\<close>

theorem wait_times_out_at_deadline:
  "(\<forall>r t n. wait_for_publish src timeout interval clock = Some (Inr r, t, n)
        \<and> status r = Some ''TIMEOUT'' \<longrightarrow>
      r = timeout_result \<and> timeout \<le> t - clock)
   \<and> (0 \<le> interval \<and> (\<forall>j. 0 < int (fst (src j)) + interval)
        \<and> (\<forall>j. \<not> ends_wait (snd (src j))) \<longrightarrow>
      (\<exists>n. wait_for_publish src timeout interval clock =
              Some (Inr timeout_result, poll_time src interval clock n, n)
            \<and> timeout \<le> poll_time src interval clock n - clock
            \<and> (\<forall>j<n. poll_time src interval clock j - clock < timeout)))"
proof (intro conjI allI impI)
  fix r t n
  assume "wait_for_publish src timeout interval clock = Some (Inr r, t, n)
        \<and> status r = Some ''TIMEOUT''"
  then show "r = timeout_result" and "timeout \<le> t - clock"
    using wait_loop_timeout_result[of src clock timeout interval 0 clock "(Inr r, t, n)"]
    by (simp_all add: wait_for_publish_def)
next
  assume a: "0 \<le> interval \<and> (\<forall>j. 0 < int (fst (src j)) + interval)
        \<and> (\<forall>j. \<not> ends_wait (snd (src j)))"
  then have a1: "0 \<le> interval" and a2: "\<forall>j. 0 < int (fst (src j)) + interval"
    and a3: "\<forall>j. \<not> ends_wait (snd (src j))"
    by blast+
  from wait_loop_timeout[OF a1 a2 a3, of 0 clock timeout]
  show "\<exists>n. wait_for_publish src timeout interval clock =
              Some (Inr timeout_result, poll_time src interval clock n, n)
            \<and> timeout \<le> poll_time src interval clock n - clock
            \<and> (\<forall>j<n. poll_time src interval clock j - clock < timeout)"
    by (auto simp: wait_for_publish_def)
qed

theorem wait_times_out_at_deadline_witness:
  "(0::int) \<le> 5
   \<and> (\<forall>j. 0 < int (fst (source_no_result j)) + 5)
   \<and> (\<forall>j. \<not> ends_wait (snd (source_no_result j)))
   \<and> wait_for_publish source_no_result 10 5 0 = Some (Inr timeout_result, 10, 2)
   \<and> status timeout_result = Some ''TIMEOUT''
   \<and> (10::int) \<le> 10 - 0
   \<and> (\<exists>n. wait_for_publish source_no_result 10 5 0 =
              Some (Inr timeout_result, poll_time source_no_result 5 0 n, n)
            \<and> 10 \<le> poll_time source_no_result 5 0 n - 0
            \<and> (\<forall>j<n. poll_time source_no_result 5 0 j - 0 < 10))"
proof -
  have h1: "\<forall>j. 0 < int (fst (source_no_result j)) + 5"
    and h2: "\<forall>j. \<not> ends_wait (snd (source_no_result j))"
    by (simp_all add: source_no_result_def)
  have w: "wait_for_publish source_no_result 10 5 0 = Some (Inr timeout_result, 10, 2)"
    by (simp add: wait_for_publish_def wait_loop.simps source_no_result_def timeout_result_def)
  have s: "status timeout_result = Some ''TIMEOUT''"
    by (simp add: timeout_result_def)
  note inst = wait_times_out_at_deadline[of source_no_result 10 5 0]
  from inst w s have d: "(10::int) \<le> 10 - 0" by blast
  from inst h1 h2
  have e: "\<exists>n. wait_for_publish source_no_result 10 5 0 =
              Some (Inr timeout_result, poll_time source_no_result 5 0 n, n)
            \<and> 10 \<le> poll_time source_no_result 5 0 n - 0
            \<and> (\<forall>j<n. poll_time source_no_result 5 0 j - 0 < 10)"
    by simp
  have "(0::int) \<le> 5" by simp
  with h1 h2 w s d e show ?thesis by (intro conjI)
qed

text \<open>
  C9, as stated, fails: with a deadline of 10, an interval of 5 and status checks that fail
  at once, the wait returns \<open>TIMEOUT\<close> when the elapsed time is exactly 10, which does
  not exceed the deadline.
\<close>

theorem wait_timeout_at_exact_deadline_counterexample:
  "(case wait_for_publish source_no_result 10 5 0 of
      Some (Inr r, t, n) \<Rightarrow>
        r = timeout_result \<and> n = 2 \<and> t - 0 = 10 \<and> \<not> (10 < t - 0)
    | _ \<Rightarrow> False)"
  by (simp add: wait_for_publish_def wait_loop.simps source_no_result_def timeout_result_def)

section \<open>Theorems: the token manager\<close>

















text \<open>
  C1. The code at the failing input: the record is expired, the exchange succeeds, and
  writing the tokens file fails. \<open>refresh_access_token\<close> drops the \<open>False\<close> of
  \<open>save_tokens\<close> and returns \<open>True\<close>; \<open>get_access_token\<close> then returns the access
  token of the expired record still held in memory, and the file keeps the old record.
\<close>

theorem refresh_with_failed_write:
  "expired (env_at 200 False) expired_record
   \<and> truthy (dict_get expired_record ''refresh_token'')
   \<and> \<not> write_ok (env_at 200 False)
   \<and> fst (refresh_access_token (env_at 200 False)
            (snd (load_tokens (manager_on expired_record)))) = True
   \<and> fst (get_access_token (env_at 200 False) (manager_on expired_record)) = Inr (PStr ''old'')
   \<and> tokens_file (snd (get_access_token (env_at 200 False) (manager_on expired_record))) =
       Stored expired_record"
  by (simp add: get_access_token_def refresh_access_token_def load_tokens_def save_tokens_def
        env_at_def manager_on_def expired_record_def new_token_reply_def dict_get_def
        dict_get_default_def dict_has_def expired_def)

section \<open>Theorems: the generation retry loop\<close>

lemma find_in_set: "find P xs = Some x \<Longrightarrow> x \<in> set xs"
  by (induction xs) (auto split: if_splits)

lemma generate_loop_spec:
  "generate_loop re service a left = (r, calls, log) \<Longrightarrow>
     (case find (\<lambda>k. attempt_accepted re (service k)) [a..<a + left] of
        None \<Rightarrow>
          r = None \<and> calls = a + left \<and>
          log = map (\<lambda>k. attempt_log re (service k)) [a..<a + left] @ [LogGenerationFailed]
      | Some k \<Rightarrow>
          calls = Suc k \<and>
          (\<exists>t. service k = ResponseText t \<and> r = Some (parse_response re t)) \<and>
          log = map (\<lambda>k. attempt_log re (service k)) [a..<Suc k])"
proof (induction left arbitrary: a r calls log)
  case 0
  then show ?case by simp
next
  case (Suc left)
  have upt: "[a..<Suc (a + left)] = a # [Suc a..<Suc (a + left)]"
    by (simp add: upt_rec)
  obtain r' calls' log' where rec: "generate_loop re service (Suc a) left = (r', calls', log')"
    by (cases "generate_loop re service (Suc a) left")
  note IH = Suc.IH[OF rec]
  show ?case
  proof (cases "attempt_accepted re (service a)")
    case True
    then obtain t where t: "service a = ResponseText t"
      "body (parse_response re t) \<noteq> []"
      "valid (validate_post_text re (full_text (parse_response re t)))"
      by (auto simp: attempt_accepted_def split: service_reply.splits)
    have "r = Some (parse_response re t) \<and> calls = Suc a \<and> log = [LogSuccess]"
      using Suc.prems t by (auto simp: Let_def)
    moreover have "attempt_log re (service a) = LogSuccess"
      using t by (simp add: attempt_log_def)
    moreover have "find (\<lambda>k. attempt_accepted re (service k)) [a..<a + Suc left] = Some a"
      using True by (simp add: upt del: upt_Suc)
    ultimately show ?thesis using t(1) by simp
  next
    case False
    have "r = r' \<and> calls = calls' \<and> log = attempt_log re (service a) # log'"
      using Suc.prems False rec
      by (auto simp: attempt_accepted_def attempt_log_def Let_def split: service_reply.splits)
    moreover have "Suc a \<le> k \<Longrightarrow> [a..<Suc k] = a # [Suc a..<Suc k]" for k
      by (simp add: upt_rec)
    moreover have "find (\<lambda>k. attempt_accepted re (service k)) [Suc a..<Suc a + left] = Some k
        \<Longrightarrow> Suc a \<le> k" for k
      using find_in_set[of "\<lambda>k. attempt_accepted re (service k)" "[Suc a..<Suc a + left]" k]
      by (simp del: upt_Suc)
    ultimately show ?thesis using IH False
      by (auto simp: upt simp del: upt_Suc split: option.splits)
  qed
qed

text \<open>
  C8. With an API key, \<open>generate_post_text\<close> calls the service at most
  \<open>max_retries + 1\<close> times (\<open>range\<close> is empty below zero). It returns the parse of the
  first attempt that is accepted (non-empty body and valid \<open>full_text\<close>) and stops
  calling there; with no accepted attempt among the \<open>max_retries + 1\<close> it makes them all
  and returns \<open>None\<close>. The log has one entry per attempt made: an API error, an empty
  body (not validated), the validation errors of a non-empty body, or success.
\<close>

theorem generate_post_text_attempts:
  assumes "ANTHROPIC_API_KEY \<noteq> []"
  shows "(case generate_post_text re ANTHROPIC_API_KEY service max_retries of
            (r, calls, log) \<Rightarrow>
              calls \<le> nat (max_retries + 1) \<and>
              (0 \<le> max_retries \<longrightarrow> int calls \<le> max_retries + 1) \<and>
              (case find (\<lambda>k. attempt_accepted re (service k)) [0..<nat (max_retries + 1)] of
                 None \<Rightarrow>
                   r = None \<and> calls = nat (max_retries + 1) \<and>
                   log = map (\<lambda>k. attempt_log re (service k)) [0..<calls] @ [LogGenerationFailed]
               | Some k \<Rightarrow>
                   calls = Suc k \<and>
                   (\<exists>t. service k = ResponseText t \<and> r = Some (parse_response re t)) \<and>
                   log = map (\<lambda>k. attempt_log re (service k)) [0..<calls]))"
proof -
  obtain r calls log where g: "generate_loop re service 0 (nat (max_retries + 1)) = (r, calls, log)"
    by (cases "generate_loop re service 0 (nat (max_retries + 1))")
  have bound: "calls \<le> nat (max_retries + 1)"
    using generate_loop_spec[OF g]
    by (auto simp: find_Some_iff split: option.splits)
  show ?thesis
    using generate_loop_spec[OF g] g assms bound
    by (auto simp: generate_post_text_def split: option.splits)
qed

theorem generate_post_text_attempts_witness:
  "''key'' \<noteq> []
   \<and> generate_post_text demo_re ''key'' demo_service 3 =
       (Some (parse_response demo_re [80, 82, 33]), 4,
        [LogApiError, LogNoBody, LogValidationErrors [MissingPR], LogSuccess])
   \<and> generate_post_text demo_re ''key'' demo_service 2 =
       (None, 3, [LogApiError, LogNoBody, LogValidationErrors [MissingPR], LogGenerationFailed])"
proof -
  have a: "find (\<lambda>k. attempt_accepted demo_re (demo_service k)) [0..<nat (3 + 1)] = Some 3"
    by (simp add: attempt_accepted_def demo_service_def demo_re_def parse_response_def
          validate_post_text_def upt_rec Let_def)
  have b: "find (\<lambda>k. attempt_accepted demo_re (demo_service k)) [0..<nat (2 + 1)] = None"
    by (simp add: attempt_accepted_def demo_service_def demo_re_def parse_response_def
          validate_post_text_def upt_rec Let_def)
  have l: "map (\<lambda>k. attempt_log demo_re (demo_service k)) [0..<4] =
             [LogApiError, LogNoBody, LogValidationErrors [MissingPR], LogSuccess]"
          "map (\<lambda>k. attempt_log demo_re (demo_service k)) [0..<3] =
             [LogApiError, LogNoBody, LogValidationErrors [MissingPR]]"
    by (simp_all add: attempt_log_def demo_service_def demo_re_def parse_response_def
          validate_post_text_def upt_rec Let_def)
  have s: "demo_service 3 = ResponseText [80, 82, 33]" by (simp add: demo_service_def)
  from generate_post_text_attempts[where ANTHROPIC_API_KEY = "''key''" and re = demo_re
           and service = demo_service and max_retries = 3]
       generate_post_text_attempts[where ANTHROPIC_API_KEY = "''key''" and re = demo_re
           and service = demo_service and max_retries = 2] a b l s
  show ?thesis
    by (auto split: prod.splits)
qed

section \<open>Theorems: the rotation order\<close>

lemma rotation_key_le: "rotation_key p \<le> rotation_key q \<longleftrightarrow> rotation_before p q"
  by (cases "last_posted_at p"; cases "last_posted_at q")
     (auto simp: rotation_key_def rotation_before_def)

lemma candidates_sorted: "sorted_wrt rotation_before (get_products_for_posting db)"
proof -
  have "sorted (map rotation_key (get_products_for_posting db))"
    by (simp add: get_products_for_posting_def)
  then show ?thesis
    by (simp add: sorted_map rotation_key_le)
qed

lemma three_products:
  assumes a: "last_posted_at a = None" "is_active a"
    and b: "last_posted_at b \<noteq> None" "post_count b = 2" "is_active b"
    and c: "last_posted_at c \<noteq> None" "post_count c = 0" "is_active c"
    and m: "mset (products db) = {#a, b, c#}"
  shows "get_products_for_posting db = [a, c, b]"
proof -
  have s: "set (products db) = {a, b, c}"
    using m by (metis mset_eq_setD set_mset_add_mset_insert set_mset_empty set_mset_mset)
  then have f: "filter is_active (products db) = products db"
    using a b c by (auto simp: filter_id_conv)
  have inj: "inj_on rotation_key (set (products db))"
    unfolding s using a b c by (auto simp: inj_on_def rotation_key_def)
  have srt: "sorted (map rotation_key [a, c, b])"
    using a b c by (auto simp: rotation_key_def)
  have "mset (products db) = mset [a, c, b]" using m by simp
  from sort_key_inj_key_eq[OF this inj srt] f show ?thesis
    by (simp add: get_products_for_posting_def)
qed

text \<open>
  C6. \<open>get_products_for_posting\<close> returns exactly the active products, in rotation order:
  never-posted products first, then ascending \<open>post_count\<close>, then ascending
  \<open>last_posted_at\<close>. For a table that holds, in any order, A (never posted), B (posted,
  \<open>post_count\<close> 2) and C (posted, \<open>post_count\<close> 0), all active, the result is [A, C, B].
  \<open>get_next_product_for_posting\<close> returns the first candidate, or \<open>None\<close> when there is
  none.
\<close>

theorem rotation_order:
  "mset (get_products_for_posting db) = mset (filter is_active (products db))
   \<and> sorted_wrt rotation_before (get_products_for_posting db)
   \<and> (\<forall>a b c. last_posted_at a = None \<and> is_active a
         \<and> last_posted_at b \<noteq> None \<and> post_count b = 2 \<and> is_active b
         \<and> last_posted_at c \<noteq> None \<and> post_count c = 0 \<and> is_active c
         \<and> mset (products db) = {#a, b, c#}
        \<longrightarrow> get_products_for_posting db = [a, c, b])
   \<and> (get_products_for_posting db = [] \<longrightarrow> get_next_product_for_posting db = None)
   \<and> (get_products_for_posting db \<noteq> [] \<longrightarrow>
        get_next_product_for_posting db = Some (hd (get_products_for_posting db)))"
  using candidates_sorted[of db] three_products[of _ _ _ db]
  by (auto simp: get_next_product_for_posting_def get_products_for_posting_def split: list.splits)

theorem rotation_order_witness:
  "last_posted_at product_A = None \<and> is_active product_A
   \<and> last_posted_at product_B \<noteq> None \<and> post_count product_B = 2 \<and> is_active product_B
   \<and> last_posted_at product_C \<noteq> None \<and> post_count product_C = 0 \<and> is_active product_C
   \<and> get_products_for_posting \<lparr>products = [product_B, product_C, product_A], posts = []\<rparr> =
       [product_A, product_C, product_B]
   \<and> get_next_product_for_posting \<lparr>products = [product_B, product_C, product_A], posts = []\<rparr> =
       Some product_A
   \<and> get_products_for_posting \<lparr>products = [], posts = []\<rparr> = []
   \<and> get_next_product_for_posting \<lparr>products = [], posts = []\<rparr> = None"
proof -
  let ?db = "\<lparr>products = [product_B, product_C, product_A], posts = []\<rparr>"
  have h: "last_posted_at product_A = None \<and> is_active product_A
   \<and> last_posted_at product_B \<noteq> None \<and> post_count product_B = 2 \<and> is_active product_B
   \<and> last_posted_at product_C \<noteq> None \<and> post_count product_C = 0 \<and> is_active product_C"
    by (simp add: product_A_def product_B_def product_C_def demo_product_def)
  have m: "mset (products ?db) = {#product_A, product_B, product_C#}"
    by simp
  have e: "get_products_for_posting \<lparr>products = [], posts = []\<rparr> = []"
    by (simp add: get_products_for_posting_def)
  from rotation_order[of ?db] h m
  have r: "get_products_for_posting ?db = [product_A, product_C, product_B]"
    by blast
  with rotation_order[of ?db]
  have n: "get_next_product_for_posting ?db = Some product_A"
    by simp
  from rotation_order[of "\<lparr>products = [], posts = []\<rparr>"] e
  have n0: "get_next_product_for_posting \<lparr>products = [], posts = []\<rparr> = None"
    by blast
  from h r n e n0 show ?thesis by blast
qed

section \<open>Theorems: the orchestration run\<close>










lemma demo_select:
  "select_product demo_db None = Some (demo_product ''p1'' (Some ''2024-05-01T10:00:00'') 3)"
  by (simp add: select_product_def get_next_product_for_posting_def
        get_products_for_posting_def demo_db_def demo_product_def)


lemma demo_wait_failed:
  "wait_for_publish source_failed_on_second 120 5 0 =
     Some (Inr \<lparr>success = False, status = Some STATUS_FAILED,
                fail_reason = [0x62, 0x61, 0x64]\<rparr>, 7, 2)"
  by (simp add: wait_for_publish_def wait_loop.simps source_failed_on_second_def
        STATUS_PUBLISH_COMPLETE_def STATUS_FAILED_def STATUS_PROCESSING_DOWNLOAD_def)




lemma failed_not_success:
  assumes "wait_for_publish src timeout interval clock = Some (Inr r, t, n)"
    and "status r = Some STATUS_FAILED \<or> status r = Some ''TIMEOUT''"
  shows "\<not> success r"
  using wait_loop_result_inv[of src clock timeout interval 0 clock "(Inr r, t, n)"] assms
  by (auto simp: wait_for_publish_def STATUS_FAILED_def STATUS_PUBLISH_COMPLETE_def)

text \<open>
  C2, as the code has it. For a run that is past content generation and is not a dry run:
  when the publish is initialised and the wait ends in \<open>FAILED\<close> or \<open>TIMEOUT\<close>, the run
  returns failure, appends one log entry with status \<open>failed\<close> and leaves the products
  table unchanged; when the initialisation fails, the run returns failure and leaves the
  whole database unchanged, so no log entry is written.
\<close>

theorem run_failed_publish:
  assumes "select_product db product_id = Some product"
    and "\<not> falsy (image_url product)" and "\<not> falsy (hosted env)"
    and "generated env = Some pd" and "\<not> dry_run"
  shows "(init_result env = None \<longrightarrow>
            run_single_post env dry_run product_id db = Some (False, db))
     \<and> (\<forall>pid r t n.
           init_result env = Some pid
           \<and> wait_for_publish (status_source env) 120 5 (start_clock env) = Some (Inr r, t, n)
           \<and> (status r = Some STATUS_FAILED \<or> status r = Some ''TIMEOUT'')
          \<longrightarrow> (\<exists>db'. run_single_post env dry_run product_id db = Some (False, db')
                 \<and> products db' = products db
                 \<and> posts db' = posts db @
                     [\<lparr>log_item_id = item_id product, post_text = Some (full_text pd),
                       hosted_image_url = hosted env, tiktok_publish_id = Some pid,
                       post_status = ''failed''\<rparr>]))"
proof (intro conjI allI impI)
  assume "init_result env = None"
  with assms show "run_single_post env dry_run product_id db = Some (False, db)"
    by (simp add: run_single_post_def post_product_def)
next
  fix pid r t n
  assume a: "init_result env = Some pid
           \<and> wait_for_publish (status_source env) 120 5 (start_clock env) = Some (Inr r, t, n)
           \<and> (status r = Some STATUS_FAILED \<or> status r = Some ''TIMEOUT'')"
  then have "\<not> success r" using failed_not_success by blast
  with a assms show "\<exists>db'. run_single_post env dry_run product_id db = Some (False, db')
                 \<and> products db' = products db
                 \<and> posts db' = posts db @
                     [\<lparr>log_item_id = item_id product, post_text = Some (full_text pd),
                       hosted_image_url = hosted env, tiktok_publish_id = Some pid,
                       post_status = ''failed''\<rparr>]"
    by (simp add: run_single_post_def post_product_def add_post_log_def)
qed

theorem run_failed_publish_witness:
  "select_product demo_db None = Some (demo_product ''p1'' (Some ''2024-05-01T10:00:00'') 3)
   \<and> run_single_post (demo_env None source_failed_on_second) False None demo_db =
       Some (False, demo_db)
   \<and> wait_for_publish source_failed_on_second 120 5 0 =
       Some (Inr \<lparr>success = False, status = Some STATUS_FAILED,
                  fail_reason = [0x62, 0x61, 0x64]\<rparr>, 7, 2)
   \<and> (\<exists>db'. run_single_post (demo_env (Some ''pub_1'') source_failed_on_second) False None
               demo_db = Some (False, db')
          \<and> products db' = products demo_db
          \<and> posts db' = posts demo_db @
               [\<lparr>log_item_id = ''p1'', post_text = Some (full_text demo_post),
                 hosted_image_url = Some ''https://host/img.jpg'',
                 tiktok_publish_id = Some ''pub_1'', post_status = ''failed''\<rparr>])"
proof -
  let ?p = "demo_product ''p1'' (Some ''2024-05-01T10:00:00'') 3"
  have h: "\<not> falsy (image_url ?p)" "item_id ?p = ''p1''" by (simp_all add: demo_product_def)
  have e: "\<not> falsy (hosted (demo_env i s))" "generated (demo_env i s) = Some demo_post"
    "init_result (demo_env i s) = i" "status_source (demo_env i s) = s"
    "start_clock (demo_env i s) = 0" "hosted (demo_env i s) = Some ''https://host/img.jpg''" for i s
    by (simp_all add: demo_env_def)
  from run_failed_publish[where dry_run = False, OF demo_select h(1)
      e(1)[of None source_failed_on_second] e(2)]
  have a: "run_single_post (demo_env None source_failed_on_second) False None demo_db =
       Some (False, demo_db)"
    by (simp add: e)
  from run_failed_publish[where dry_run = False, OF demo_select h(1)
      e(1)[of "Some ''pub_1''" source_failed_on_second] e(2)] demo_wait_failed
  have b: "\<exists>db'. run_single_post (demo_env (Some ''pub_1'') source_failed_on_second) False None
               demo_db = Some (False, db')
          \<and> products db' = products demo_db
          \<and> posts db' = posts demo_db @
               [\<lparr>log_item_id = ''p1'', post_text = Some (full_text demo_post),
                 hosted_image_url = Some ''https://host/img.jpg'',
                 tiktok_publish_id = Some ''pub_1'', post_status = ''failed''\<rparr>]"
    by (simp add: e h)
  from demo_select a demo_wait_failed b show ?thesis by blast
qed

text \<open>
  C2, as stated, fails: when \<open>init_photo_post\<close> fails, the run is past content
  generation, returns failure, and the posts table is still empty.
\<close>

theorem run_init_failure_counterexample:
  "select_product demo_db None = Some (demo_product ''p1'' (Some ''2024-05-01T10:00:00'') 3)
   \<and> hosted (demo_env None source_inbox) = Some ''https://host/img.jpg''
   \<and> generated (demo_env None source_inbox) = Some demo_post
   \<and> init_result (demo_env None source_inbox) = None
   \<and> run_single_post (demo_env None source_inbox) False None demo_db = Some (False, demo_db)
   \<and> posts demo_db = []"
  using demo_select
  by (simp add: run_single_post_def post_product_def demo_env_def demo_product_def demo_db_def)

end
